theory Spec2Isabelle
  imports Complex_Main "HOL-Library.AList" "HOL-Library.Product_Lexorder" "HOL-Library.Log_Nat"
begin

section \<open>Data model\<close>

text \<open>
  The order routes of \<^verbatim>\<open>src/routes/accountRoute.js\<close> work on three document
  collections, \<^verbatim>\<open>db.Account\<close>, \<^verbatim>\<open>db.Product\<close> and \<^verbatim>\<open>db.Order\<close>. The schema files
  are not part of the sources at hand, so the records below carry the fields the
  route handlers read and write. A document id (\<^verbatim>\<open>_id\<close>, \<^verbatim>\<open>req.params.orderId\<close>) is
  a string. A JavaScript number is a rational here; the rounding of
  double-precision arithmetic is modelled where the total of an order is
  accumulated, and not for the updates of stock and balance.
  \<open>createdAt\<close> is the creation
  time that \<^verbatim>\<open>GET /shipper-orders\<close> sorts by, taken from the clock when the
  order is created. Saving a document writes it; the validation of a
  document against its schema is not modelled.

  A line item and a product both have a field \<^verbatim>\<open>quantity\<close> in the source; the
  line item's is called \<open>item_quantity\<close> here, its populated form's
  \<open>pop_quantity\<close>.
\<close>

type_synonym objid = string

datatype role = Customer | Admin | Shipper

datatype status = Pending | Paid | Shipping | Delivered | Canceled

record Account =
  email :: string
  balance :: rat
  role :: role

record Product =
  name :: string
  price :: rat
  quantity :: rat

record Item =
  product :: objid
  item_quantity :: rat

record Order =
  account :: objid
  items :: "Item list"
  totalAmount :: rat
  status :: status
  imageConfirmDelivered :: "string option"
  createdAt :: int

text \<open>
  A collection is the list of its documents, each with its id, in the
  collection's natural order. \<^verbatim>\<open>findById\<close> gives the document with the id or
  \<^verbatim>\<open>null\<close>; \<^verbatim>\<open>doc.save()\<close> on a loaded document writes it back under its id;
  \<^verbatim>\<open>new db.Order(...).save()\<close> appends a document.
\<close>

type_synonym 'a collection = "(objid \<times> 'a) list"

definition findById :: "'a collection \<Rightarrow> objid \<Rightarrow> 'a option" where
  "findById c i = map_of c i"

definition save :: "objid \<Rightarrow> 'a \<Rightarrow> 'a collection \<Rightarrow> 'a collection" where
  "save i d c = AList.update i d c"

definition insert_doc :: "objid \<Rightarrow> 'a \<Rightarrow> 'a collection \<Rightarrow> 'a collection" where
  "insert_doc i d c = c @ [(i, d)]"

text \<open>\<^verbatim>\<open>db.Account.findOne({ role: "admin" })\<close>: the first admin account, if any.\<close>

definition findOne_admin :: "Account collection \<Rightarrow> (objid \<times> Account) option" where
  "findOne_admin c = find (\<lambda>(i, a). role a = Admin) c"

text \<open>
  \<^verbatim>\<open>.populate("items.product")\<close> replaces the product id of every line item by
  the product document with that id, and by \<^verbatim>\<open>null\<close> when the collection has
  no such document. The populated document keeps its \<^verbatim>\<open>_id\<close>.
\<close>

record PopItem =
  pop_product :: "(objid \<times> Product) option"
  pop_quantity :: rat

definition populate :: "Product collection \<Rightarrow> Item list \<Rightarrow> PopItem list" where
  "populate ps its =
     map (\<lambda>it. \<lparr>pop_product = map_option (\<lambda>p. (product it, p)) (findById ps (product it)),
                pop_quantity = item_quantity it\<rparr>) its"

text \<open>
  The refund mail of cancel-order: the data handed to the template and to
  \<^verbatim>\<open>transporter.sendMail\<close>. Sending is fire-and-forget, so a mail is an entry
  of the outbox and nothing else.
\<close>

record FormattedItem =
  productName :: string
  fi_quantity :: rat
  fi_price :: rat
  fi_total :: rat

record Mail =
  mail_to :: string
  mail_orderId :: objid
  mail_refundAmount :: rat
  mail_items :: "FormattedItem list"

record database =
  accounts :: "Account collection"
  products :: "Product collection"
  orders :: "Order collection"
  outbox :: "Mail list"

section \<open>Responses and exceptions\<close>

text \<open>
  A handler answers with \<^verbatim>\<open>res.status(n).json(body)\<close> or with
  \<^verbatim>\<open>res.redirect(url)\<close>; \<open>NoResponse\<close> is a handler that ends without
  answering. A thrown exception is a value carrying \<^verbatim>\<open>error.message\<close>. The
  Vietnamese messages of cancel-order are written without their diacritics.
\<close>

datatype exn = TypeError string

fun message :: "exn \<Rightarrow> string" where
  "message (TypeError m) = m"

datatype body =
    Message string
  | MessageError string string
  | NotEnoughStock string rat rat
  | OrderCreated objid string
  | StatusUpdated string objid
  | DeliveryConfirmed string objid string
  | OrderList "(objid \<times> Order) list"
  | ShipperOrderList "(objid \<times> Order \<times> (string \<times> rat) option list) list"
  | AccountDoc Account
  | Refunded string rat

datatype response = Json nat body | Redirect string | NoResponse

text \<open>Reading a property of \<^verbatim>\<open>null\<close> throws a TypeError (the wording is Node's).\<close>

definition null_property :: "string \<Rightarrow> exn" where
  "null_property f =
     TypeError (''Cannot read properties of null (reading '' @ [CHR 0x27] @ f @ [CHR 0x27] @ '')'')"

text \<open>
  \<^verbatim>\<open>encodeURIComponent\<close> on a string of bytes: letters, digits and
  \<^verbatim>\<open>- _ . ! ~ * ' ( )\<close> stay, every other byte becomes \<^verbatim>\<open>%XX\<close>.
\<close>

definition unreserved :: "char \<Rightarrow> bool" where
  "unreserved c \<longleftrightarrow>
     c \<in> set ''ABCDEFGHIJKLMNOPQRSTUVWXYZabcdefghijklmnopqrstuvwxyz0123456789-_.!~*()''
     \<or> c = CHR 0x27"

definition hex_digit :: "nat \<Rightarrow> char" where
  "hex_digit n = ''0123456789ABCDEF'' ! (n mod 16)"

definition encode_char :: "char \<Rightarrow> string" where
  "encode_char c =
     (if unreserved c then [c]
      else CHR ''%'' # [hex_digit (of_char c div 16), hex_digit (of_char c)])"

definition encodeURIComponent :: "string \<Rightarrow> string" where
  "encodeURIComponent s = concat (map encode_char s)"

section \<open>Confirm payment\<close>

text \<open>
  \<^verbatim>\<open>GET /confirm-payment/:orderId\<close>. The body of one iteration of the stock
  loop is \<open>reduce_item\<close>: \<^verbatim>\<open>item.product._id\<close> throws on a line item whose
  populated product is \<^verbatim>\<open>null\<close>; otherwise the product is loaded again by
  its id and, if found, saved with its quantity lowered.
\<close>

definition cart_url :: string where
  "cart_url = ''exp://192.168.1.4:8081/--/cart''"

definition reduce_item :: "PopItem \<Rightarrow> Product collection \<Rightarrow> exn + Product collection" where
  "reduce_item item ps =
     (case pop_product item of
        None \<Rightarrow> Inl (null_property ''_id'')
      | Some (pid, _) \<Rightarrow>
          (case findById ps pid of
             Some p \<Rightarrow> Inr (save pid (p\<lparr>quantity := quantity p - pop_quantity item\<rparr>) ps)
           | None \<Rightarrow> Inr ps))"

fun reduce_quantities :: "PopItem list \<Rightarrow> Product collection \<Rightarrow> Product collection \<times> exn option" where
  "reduce_quantities [] ps = (ps, None)"
| "reduce_quantities (item # its) ps =
     (case reduce_item item ps of
        Inl e \<Rightarrow> (ps, Some e)
      | Inr ps' \<Rightarrow> reduce_quantities its ps')"

definition confirm_payment_try :: "database \<Rightarrow> objid \<Rightarrow> string option \<Rightarrow> database \<times> (exn + response)" where
  "confirm_payment_try db orderId vnp_ResponseCode =
     (if vnp_ResponseCode \<noteq> Some ''00'' then
        (db, Inr (Redirect (cart_url @ ''?status=error&message=Payment%20unsuccessful'')))
      else
        (case findById (orders db) orderId of
           None \<Rightarrow> (db, Inr (Redirect (cart_url @ ''?status=error&message=Order%20not%20found'')))
         | Some order \<Rightarrow>
             (if status order \<noteq> Pending then
                (db, Inr (Redirect (cart_url @ ''?status=error&message=Order%20already%20processed'')))
              else
                (let pitems = populate (products db) (items order);
                     db1 = db\<lparr>orders := save orderId (order\<lparr>status := Paid\<rparr>) (orders db)\<rparr>
                 in (case reduce_quantities pitems (products db1) of
                       (ps, Some e) \<Rightarrow> (db1\<lparr>products := ps\<rparr>, Inl e)
                     | (ps, None) \<Rightarrow>
                         (db1\<lparr>products := ps\<rparr>,
                          Inr (Redirect (cart_url @ ''?status=success&orderId='' @ orderId))))))))"

definition confirm_payment_catch :: "exn \<Rightarrow> response" where
  "confirm_payment_catch e =
     Redirect (cart_url @ ''?status=error&message='' @ encodeURIComponent (message e))"

definition confirm_payment :: "database \<Rightarrow> objid \<Rightarrow> string option \<Rightarrow> database \<times> response" where
  "confirm_payment db orderId vnp_ResponseCode =
     (case confirm_payment_try db orderId vnp_ResponseCode of
        (db', Inl e) \<Rightarrow> (db', confirm_payment_catch e)
      | (db', Inr r) \<Rightarrow> (db', r))"

text \<open>
  The database after each step of the success path, in order: first the state
  after \<^verbatim>\<open>order.save()\<close>, then the state after each completed iteration of
  the stock loop. The handler can be interrupted between any two of them.
\<close>

fun reduce_progress :: "PopItem list \<Rightarrow> Product collection \<Rightarrow> Product collection list" where
  "reduce_progress [] ps = []"
| "reduce_progress (item # its) ps =
     (case reduce_item item ps of
        Inl e \<Rightarrow> []
      | Inr ps' \<Rightarrow> ps' # reduce_progress its ps')"

definition confirm_payment_progress :: "database \<Rightarrow> objid \<Rightarrow> string option \<Rightarrow> database list" where
  "confirm_payment_progress db orderId vnp_ResponseCode =
     (if vnp_ResponseCode \<noteq> Some ''00'' then []
      else
        (case findById (orders db) orderId of
           None \<Rightarrow> []
         | Some order \<Rightarrow>
             (if status order \<noteq> Pending then []
              else
                (let pitems = populate (products db) (items order);
                     db1 = db\<lparr>orders := save orderId (order\<lparr>status := Paid\<rparr>) (orders db)\<rparr>
                 in db1 # map (\<lambda>ps. db1\<lparr>products := ps\<rparr>) (reduce_progress pitems (products db1))))))"

section \<open>Double-precision arithmetic\<close>

text \<open>
  The sum and the product of two JavaScript numbers are the exact results
  rounded to the nearest double, a tie going to the even significand.
  \<open>float_exp x\<close> is the exponent \<open>e\<close> with \<open>2\<^sup>e \<le> \<bar>x\<bar> < 2\<^sup>e\<^sup>+\<^sup>1\<close>; a double has 53
  significant bits, and below \<open>2\<^sup>-\<^sup>1\<^sup>0\<^sup>2\<^sup>2\<close> the spacing of the subnormal numbers. A
  result beyond the largest double is \<^verbatim>\<open>Infinity\<close> in the source and has no
  counterpart here.
\<close>

definition pow2 :: "int \<Rightarrow> rat" where
  "pow2 k = (if 0 \<le> k then 2 ^ nat k else 1 / 2 ^ nat (- k))"

definition float_exp :: "rat \<Rightarrow> int" where
  "float_exp x =
     (if 1 \<le> \<bar>x\<bar> then bitlen \<lfloor>\<bar>x\<bar>\<rfloor> - 1 else - bitlen (\<lceil>1 / \<bar>x\<bar>\<rceil> - 1))"

definition round_half_even :: "rat \<Rightarrow> int" where
  "round_half_even y =
     (let f = \<lfloor>y\<rfloor>; r = y - of_int f
      in if r < 1 / 2 then f else if 1 / 2 < r then f + 1 else if even f then f else f + 1)"

definition fl :: "rat \<Rightarrow> rat" where
  "fl x =
     (if x = 0 then 0
      else (let u = pow2 (max (float_exp x) (- 1022) - 52)
            in of_int (round_half_even (x / u)) * u))"

definition js_add :: "rat \<Rightarrow> rat \<Rightarrow> rat" where
  "js_add a b = fl (a + b)"

definition js_mul :: "rat \<Rightarrow> rat \<Rightarrow> rat" where
  "js_mul a b = fl (a * b)"

section \<open>Create order\<close>

text \<open>
  \<^verbatim>\<open>POST /add-to-cart\<close>. The request body has an optional account id and an
  optional list of items. The id of the new order, the clock and the payment
  URL builder of the gateway SDK come from outside the handler. The loop adds
  \<^verbatim>\<open>item.quantity * product.price\<close> to the total in double arithmetic.
\<close>

record cart_env =
  new_id :: objid
  now :: int
  buildPaymentUrl :: "rat \<Rightarrow> objid \<Rightarrow> string"

fun cart_loop :: "Product collection \<Rightarrow> Item list \<Rightarrow> rat \<Rightarrow> Item list \<Rightarrow> response + (rat \<times> Item list)" where
  "cart_loop ps [] amount orderItems = Inr (amount, orderItems)"
| "cart_loop ps (item # its) amount orderItems =
     (case findById ps (product item) of
        None \<Rightarrow> Inl (Json 404 (Message (''Product with ID '' @ product item @ '' not found.'')))
      | Some p \<Rightarrow>
          (if quantity p < item_quantity item then
             Inl (Json 400 (NotEnoughStock (name p) (quantity p) (item_quantity item)))
           else
             cart_loop ps its (js_add amount (js_mul (item_quantity item) (price p)))
               (orderItems @ [\<lparr>product = product item, item_quantity = item_quantity item\<rparr>])))"

definition add_to_cart :: "cart_env \<Rightarrow> database \<Rightarrow> objid option \<Rightarrow> Item list option \<Rightarrow> database \<times> response" where
  "add_to_cart env db acc its =
     (case (acc, its) of
        (Some a, Some cart) \<Rightarrow>
          (if a = [] \<or> cart = [] then
             (db, Json 400 (Message ''An order must contain at least one product.''))
           else
             (case findById (accounts db) a of
                None \<Rightarrow> (db, Json 404 (Message ''Account not found.''))
              | Some accountDetails \<Rightarrow>
                  (case cart_loop (products db) cart 0 [] of
                     Inl r \<Rightarrow> (db, r)
                   | Inr (amount, orderItems) \<Rightarrow>
                       (let newOrder = \<lparr>account = a, items = orderItems, totalAmount = amount,
                                         status = Pending, imageConfirmDelivered = None,
                                         createdAt = now env\<rparr>
                        in (db\<lparr>orders := insert_doc (new_id env) newOrder (orders db)\<rparr>,
                            Json 201 (OrderCreated (new_id env)
                              (buildPaymentUrl env amount (new_id env))))))))
      | _ \<Rightarrow> (db, Json 400 (Message ''An order must contain at least one product.'')))"

section \<open>Mark shipping, confirm delivery\<close>

definition update_shipping :: "database \<Rightarrow> objid \<Rightarrow> database \<times> response" where
  "update_shipping db orderId =
     (case findById (orders db) orderId of
        None \<Rightarrow> (db, Json 404 (Message ''Order not found.''))
      | Some order \<Rightarrow>
          (if status order \<noteq> Paid then
             (db, Json 400 (Message ''Only paid orders can be marked as shipping.''))
           else
             (db\<lparr>orders := save orderId (order\<lparr>status := Shipping\<rparr>) (orders db)\<rparr>,
              Json 200 (StatusUpdated ''Order status updated to Shipping.'' orderId))))"

text \<open>
  \<^verbatim>\<open>POST /confirm-delivery/:orderId\<close>; \<open>file\<close> is the name of the uploaded
  file (\<^verbatim>\<open>req.file.filename\<close>), absent when the request has no file.
\<close>

definition baseUrl :: string where
  "baseUrl = ''https://mma301-project-be.onrender.com''"

definition confirm_delivery :: "database \<Rightarrow> objid \<Rightarrow> string option \<Rightarrow> database \<times> response" where
  "confirm_delivery db orderId file =
     (case findById (orders db) orderId of
        None \<Rightarrow> (db, Json 404 (Message ''Order not found.''))
      | Some order \<Rightarrow>
          (if status order \<noteq> Shipping then
             (db, Json 400 (Message ''Only shipping orders can be confirmed as delivered.''))
           else
             (case file of
                None \<Rightarrow> (db, Json 400 (Message ''Delivery confirmation image is required.''))
              | Some filename \<Rightarrow>
                  (let image = baseUrl @ ''/uploads/deliveryConfirmation/'' @ filename
                   in (db\<lparr>orders := save orderId
                            (order\<lparr>imageConfirmDelivered := Some image, status := Delivered\<rparr>)
                            (orders db)\<rparr>,
                       Json 200 (DeliveryConfirmed ''Order delivery confirmed.'' orderId
                         (''https://mma301-project-be.onrender.com'' @ image)))))))"

section \<open>Listing, account lookup, add balance\<close>

definition orders_by_account :: "database \<Rightarrow> objid \<Rightarrow> database \<times> response" where
  "orders_by_account db i =
     (db, Json 200 (OrderList (filter (\<lambda>(_, order). account order = i) (orders db))))"

text \<open>
  \<^verbatim>\<open>GET /shipper-orders\<close>: the orders in Paid, Shipping or Delivered status,
  each with the name and price of its products, sorted by the status string
  and then by creation time, latest first.
\<close>

fun status_rank :: "status \<Rightarrow> nat" where
  "status_rank Canceled = 0"
| "status_rank Delivered = 1"
| "status_rank Paid = 2"
| "status_rank Pending = 3"
| "status_rank Shipping = 4"

definition shipper_orders :: "database \<Rightarrow> database \<times> response" where
  "shipper_orders db =
     (db, Json 200 (ShipperOrderList
        (map (\<lambda>(i, order).
                (i, order,
                 map (\<lambda>item. map_option (\<lambda>p. (name p, price p))
                                (findById (products db) (product item)))
                   (items order)))
           (sort_key (\<lambda>(_, order). (status_rank (status order), - createdAt order))
              (filter (\<lambda>(_, order). status order \<in> {Paid, Shipping, Delivered}) (orders db))))))"

definition get_account :: "database \<Rightarrow> objid \<Rightarrow> database \<times> response" where
  "get_account db i =
     (case findById (accounts db) i of
        None \<Rightarrow> (db, Json 404 (Message ''Account not found''))
      | Some a \<Rightarrow> (db, Json 200 (AccountDoc a)))"

definition add_balance :: "database \<Rightarrow> objid option \<Rightarrow> rat option \<Rightarrow> database \<times> response" where
  "add_balance db acc amount =
     (case (acc, amount) of
        (Some a, Some n) \<Rightarrow>
          (if a = [] \<or> n = 0 \<or> n \<le> 0 then (db, Json 400 (Message ''Invalid request.''))
           else
             (case findById (accounts db) a of
                None \<Rightarrow> (db, Json 404 (Message ''Account not found.''))
              | Some accountDetails \<Rightarrow>
                  (db\<lparr>accounts := save a (accountDetails\<lparr>balance := balance accountDetails + n\<rparr>)
                                   (accounts db)\<rparr>,
                   Json 200 (Message ''Balance added successfully.''))))
      | _ \<Rightarrow> (db, Json 400 (Message ''Invalid request.'')))"

section \<open>Cancel order\<close>

text \<open>
  \<^verbatim>\<open>POST /cancel-order/:orderId\<close>. In the source the statements that set the
  status, send the mail and answer 200 stand inside the body of the
  \<^verbatim>\<open>for (const item of order.items)\<close> loop, after the stock update of the
  item: the first iteration returns. So the loop is a case distinction on the
  item list: with no item the handler falls out of the loop and ends without
  an answer; otherwise only the first item is looked at. The template file
  of the mail is taken to be in place.
\<close>

definition format_item :: "PopItem \<Rightarrow> FormattedItem" where
  "format_item item =
     \<lparr>productName =
        (case pop_product item of
           Some (_, p) \<Rightarrow> (if name p = [] then ''Unknown Product'' else name p)
         | None \<Rightarrow> ''Unknown Product''),
      fi_quantity = pop_quantity item,
      fi_price = (case pop_product item of Some (_, p) \<Rightarrow> price p | None \<Rightarrow> 0),
      fi_total = (case pop_product item of Some (_, p) \<Rightarrow> pop_quantity item * price p | None \<Rightarrow> 0)\<rparr>"

definition cancel_message :: string where
  "cancel_message =
     ''Don hang da duoc huy va hoan tien 50%. So luong san pham da duoc cap nhat vao kho.''"

definition cancel_order_items ::
  "database \<Rightarrow> objid \<Rightarrow> Order \<Rightarrow> Account \<Rightarrow> rat \<Rightarrow> PopItem list \<Rightarrow> database \<times> (exn + response)" where
  "cancel_order_items db orderId order acc refundAmount pitems =
     (case pitems of
        [] \<Rightarrow> (db, Inr NoResponse)
      | item # _ \<Rightarrow>
          (case pop_product item of
             None \<Rightarrow> (db, Inl (null_property ''_id''))
           | Some (pid, _) \<Rightarrow>
               (let db1 = (case findById (products db) pid of
                             Some p \<Rightarrow>
                               db\<lparr>products := save pid (p\<lparr>quantity := quantity p + pop_quantity item\<rparr>)
                                                (products db)\<rparr>
                           | None \<Rightarrow> db);
                    db2 = db1\<lparr>orders := save orderId (order\<lparr>status := Canceled\<rparr>) (orders db1)\<rparr>;
                    mail = \<lparr>mail_to = email acc, mail_orderId = orderId,
                            mail_refundAmount = refundAmount,
                            mail_items = map format_item pitems\<rparr>
                in (db2\<lparr>outbox := outbox db2 @ [mail]\<rparr>,
                    Inr (Json 200 (Refunded cancel_message refundAmount))))))"

text \<open>
  The refund goes to the balance of the owning account and, once that is
  saved, to the balance of the first admin account, if there is one.
\<close>

definition credit_refund :: "database \<Rightarrow> objid \<Rightarrow> Account \<Rightarrow> rat \<Rightarrow> database" where
  "credit_refund db owner acc refundAmount =
     (let db1 = db\<lparr>accounts := save owner (acc\<lparr>balance := balance acc + refundAmount\<rparr>) (accounts db)\<rparr>
      in (case findOne_admin (accounts db1) of
            Some (aid, adminAccount) \<Rightarrow>
              db1\<lparr>accounts := save aid (adminAccount\<lparr>balance := balance adminAccount + refundAmount\<rparr>)
                                (accounts db1)\<rparr>
          | None \<Rightarrow> db1))"

definition cancel_order_try :: "database \<Rightarrow> objid \<Rightarrow> database \<times> (exn + response)" where
  "cancel_order_try db orderId =
     (case findById (orders db) orderId of
        None \<Rightarrow> (db, Inr (Json 404 (Message ''Khong tim thay don hang'')))
      | Some order \<Rightarrow>
          (if status order \<noteq> Paid then
             (db, Inr (Json 400 (Message ''Only paid orders can be canceled.'')))
           else
             (let pitems = populate (products db) (items order);
                  refundAmount = totalAmount order * (1 / 2)
              in (case findById (accounts db) (account order) of
                    None \<Rightarrow> (db, Inl (null_property ''balance''))
                  | Some acc \<Rightarrow>
                      cancel_order_items (credit_refund db (account order) acc refundAmount)
                        orderId order acc refundAmount pitems))))"

definition cancel_order_catch :: "exn \<Rightarrow> response" where
  "cancel_order_catch e = Json 500 (MessageError ''Loi may chu'' (message e))"

definition cancel_order :: "database \<Rightarrow> objid \<Rightarrow> database \<times> response" where
  "cancel_order db orderId =
     (case cancel_order_try db orderId of
        (db', Inl e) \<Rightarrow> (db', cancel_order_catch e)
      | (db', Inr r) \<Rightarrow> (db', r))"

section \<open>Requests and runs\<close>

text \<open>
  One constructor per route; a request is one that the authentication and
  role middleware, which are not part of the sources at hand, have let
  through. A run handles a list of requests one after the other.
\<close>

datatype request =
    AddToCart cart_env "objid option" "Item list option"
  | ConfirmPayment objid "string option"
  | UpdateShipping objid
  | ConfirmDelivery objid "string option"
  | OrdersByAccount objid
  | AddBalance "objid option" "rat option"
  | CancelOrder objid
  | ShipperOrders
  | GetAccount objid

fun handle :: "database \<Rightarrow> request \<Rightarrow> database \<times> response" where
  "handle db (AddToCart env acc its) = add_to_cart env db acc its"
| "handle db (ConfirmPayment orderId code) = confirm_payment db orderId code"
| "handle db (UpdateShipping orderId) = update_shipping db orderId"
| "handle db (ConfirmDelivery orderId file) = confirm_delivery db orderId file"
| "handle db (OrdersByAccount i) = orders_by_account db i"
| "handle db (AddBalance acc amount) = add_balance db acc amount"
| "handle db (CancelOrder orderId) = cancel_order db orderId"
| "handle db ShipperOrders = shipper_orders db"
| "handle db (GetAccount i) = get_account db i"

fun run :: "database \<Rightarrow> request list \<Rightarrow> database" where
  "run db [] = db"
| "run db (r # rs) = run (fst (handle db r)) rs"

text \<open>
  The order workflow of the specification: the four transitions, and the
  route that may perform each.
\<close>

definition workflow :: "status \<Rightarrow> status \<Rightarrow> bool" where
  "workflow a b \<longleftrightarrow>
     a = Pending \<and> b = Paid \<or> a = Paid \<and> b = Shipping \<or>
     a = Shipping \<and> b = Delivered \<or> a = Paid \<and> b = Canceled"

fun route_transition :: "request \<Rightarrow> status \<Rightarrow> status \<Rightarrow> bool" where
  "route_transition (ConfirmPayment _ _) a b = (a = Pending \<and> b = Paid)"
| "route_transition (UpdateShipping _) a b = (a = Paid \<and> b = Shipping)"
| "route_transition (ConfirmDelivery _ _) a b = (a = Shipping \<and> b = Delivered)"
| "route_transition (CancelOrder _) a b = (a = Paid \<and> b = Canceled)"
| "route_transition _ a b = False"

text \<open>
  What a handler does to the order collection: nothing, or one save of the
  order of the request, from one status to another.
\<close>

definition orders_step :: "status \<Rightarrow> status \<Rightarrow> objid \<Rightarrow> Order collection \<Rightarrow> Order collection \<Rightarrow> bool" where
  "orders_step a b orderId c c' \<longleftrightarrow>
     c' = c \<or>
     (\<exists>order order'. findById c orderId = Some order \<and> status order = a \<and> status order' = b \<and>
        c' = save orderId order' c)"

section \<open>Quantities of the specification\<close>


definition line_total :: "Product collection \<Rightarrow> Item \<Rightarrow> rat" where
  "line_total ps it =
     (case findById ps (product it) of
        Some p \<Rightarrow> item_quantity it * price p
      | None \<Rightarrow> 0)"

definition cart_total :: "Product collection \<Rightarrow> Item list \<Rightarrow> rat" where
  "cart_total ps cart = sum_list (map (line_total ps) cart)"

section \<open>A small shop\<close>

text \<open>
  Two accounts, two products and one order with two line items, in a status
  to be chosen; the second line item asks for more than is in stock.
\<close>

definition shop_order :: "status \<Rightarrow> Order" where
  "shop_order st =
     \<lparr>account = ''a1'',
      items = [\<lparr>product = ''p1'', item_quantity = 2\<rparr>, \<lparr>product = ''p2'', item_quantity = 3\<rparr>],
      totalAmount = 32, status = st, imageConfirmDelivered = None, createdAt = 0\<rparr>"

definition shop :: "status \<Rightarrow> database" where
  "shop st =
     \<lparr>accounts = [(''a1'', \<lparr>email = ''ann@shop.test'', balance = 0, role = Customer\<rparr>),
                  (''a2'', \<lparr>email = ''root@shop.test'', balance = 100, role = Admin\<rparr>)],
      products = [(''p1'', \<lparr>name = ''Soap'', price = 10, quantity = 5\<rparr>),
                  (''p2'', \<lparr>name = ''Balm'', price = 4, quantity = 1\<rparr>)],
      orders = [(''o1'', shop_order st)],
      outbox = []\<rparr>"

text \<open>The same shop after the product \<open>p1\<close> of the first line item has been deleted.\<close>

definition shop_without_p1 :: "status \<Rightarrow> database" where
  "shop_without_p1 st = (shop st)\<lparr>products := [(''p2'', \<lparr>name = ''Balm'', price = 4, quantity = 1\<rparr>)]\<rparr>"

text \<open>
  What the handler of add-to-cart gets from outside, and a shop whose one
  product has the price \<open>2\<^sup>5\<^sup>3 - 1\<close>.
\<close>

definition shop_env :: cart_env where
  "shop_env = \<lparr>new_id = ''o2'', now = 7, buildPaymentUrl = (\<lambda>amount i. ''pay/'' @ i)\<rparr>"

definition dear_shop :: database where
  "dear_shop =
     \<lparr>accounts = [(''a1'', \<lparr>email = ''ann@shop.test'', balance = 0, role = Customer\<rparr>)],
      products = [(''p1'', \<lparr>name = ''Gold'', price = 9007199254740991, quantity = 5\<rparr>)],
      orders = [],
      outbox = []\<rparr>"

section \<open>Collections and the stock loop\<close>

text \<open>Unfolding the small shop.\<close>

lemmas shop_simps = shop_def shop_order_def shop_without_p1_def findById_def

lemma findById_save: "findById (save i d c) j = (if j = i then Some d else findById c j)"
  by (simp add: findById_def save_def update_conv')

lemma findById_insert_doc:
  "findById c j = Some d \<Longrightarrow> findById (insert_doc i d' c) j = Some d"
  by (simp add: findById_def insert_doc_def map_add_Some_iff)






lemma confirm_payment_pending:
  assumes "findById (orders db) orderId = Some order" and "status order = Pending"
  shows "confirm_payment db orderId (Some ''00'') =
           (case reduce_quantities (populate (products db) (items order)) (products db) of
              (ps, Some e) \<Rightarrow>
                (db\<lparr>orders := save orderId (order\<lparr>status := Paid\<rparr>) (orders db), products := ps\<rparr>,
                 confirm_payment_catch e)
            | (ps, None) \<Rightarrow>
                (db\<lparr>orders := save orderId (order\<lparr>status := Paid\<rparr>) (orders db), products := ps\<rparr>,
                 Redirect (cart_url @ ''?status=success&orderId='' @ orderId)))"
  using assms
  by (simp add: confirm_payment_def confirm_payment_try_def Let_def split: prod.split option.split)



section \<open>Confirming a payment twice\<close>




section \<open>Cancelling an order that is not Paid\<close>

text \<open>
  Claim C5. Cancelling an existing order whose status is not Paid answers
  400 and leaves the whole database as it was: accounts, products, orders and
  outbox.
\<close>

theorem cancel_order_not_paid:
  assumes "findById (orders db) orderId = Some order" and "status order \<noteq> Paid"
  shows "cancel_order db orderId = (db, Json 400 (Message ''Only paid orders can be canceled.''))"
  using assms by (simp add: cancel_order_def cancel_order_try_def)

theorem cancel_order_not_paid_witness:
  "findById (orders (shop Pending)) ''o1'' = Some (shop_order Pending) \<and>
   status (shop_order Pending) \<noteq> Paid \<and>
   cancel_order (shop Pending) ''o1'' =
     (shop Pending, Json 400 (Message ''Only paid orders can be canceled.''))"
proof -
  have h1: "findById (orders (shop Pending)) ''o1'' = Some (shop_order Pending)"
    by (simp add: shop_simps)
  have h2: "status (shop_order Pending) \<noteq> Paid"
    by (simp add: shop_simps)
  from h1 h2 cancel_order_not_paid [OF h1 h2] show ?thesis by blast
qed

section \<open>Confirming a delivery without a file\<close>

text \<open>
  Claim C6. For an existing order in any status, confirm-delivery without an
  uploaded file answers 400 and leaves the database, and so the order, as it
  was.
\<close>

theorem confirm_delivery_no_file:
  assumes "findById (orders db) orderId = Some order"
  shows "confirm_delivery db orderId None =
           (db, Json 400 (Message (if status order \<noteq> Shipping
                                   then ''Only shipping orders can be confirmed as delivered.''
                                   else ''Delivery confirmation image is required.'')))"
  using assms by (simp add: confirm_delivery_def)

theorem confirm_delivery_no_file_witness:
  "findById (orders (shop Shipping)) ''o1'' = Some (shop_order Shipping) \<and>
   confirm_delivery (shop Shipping) ''o1'' None =
     (shop Shipping, Json 400 (Message ''Delivery confirmation image is required.''))"
proof -
  have h: "findById (orders (shop Shipping)) ''o1'' = Some (shop_order Shipping)"
    by (simp add: shop_simps)
  have s: "status (shop_order Shipping) = Shipping"
    by (simp add: shop_simps)
  from h confirm_delivery_no_file [OF h] show ?thesis by (simp add: s)
qed

section \<open>No stock check at confirmation\<close>



section \<open>Confirm-payment always redirects\<close>

lemma confirm_payment_try_cases:
  "(\<exists>db' e. confirm_payment_try db orderId code = (db', Inl e)) \<or>
   confirm_payment_try db orderId code =
     (db, Inr (Redirect (cart_url @ ''?status=error&message='' @ ''Payment%20unsuccessful''))) \<or>
   confirm_payment_try db orderId code =
     (db, Inr (Redirect (cart_url @ ''?status=error&message='' @ ''Order%20not%20found''))) \<or>
   confirm_payment_try db orderId code =
     (db, Inr (Redirect (cart_url @ ''?status=error&message='' @ ''Order%20already%20processed''))) \<or>
   (\<exists>db'. confirm_payment_try db orderId code =
      (db', Inr (Redirect (cart_url @ ''?status=success&orderId='' @ orderId))))"
  by (simp add: confirm_payment_try_def Let_def split: option.split prod.split)

lemma encode_null_id:
  "encodeURIComponent (message (null_property ''_id'')) =
     ''Cannot%20read%20properties%20of%20null%20(reading%20'' @ [CHR 0x27] @ ''_id'' @ [CHR 0x27] @ '')''"
  by (simp add: encodeURIComponent_def null_property_def encode_char_def unreserved_def hex_digit_def)

text \<open>
  Claim C8. Whatever the order id, the response code and the database, the
  handler answers with a redirect, never with JSON: to the success page, or
  to the cart page with \<open>status=error\<close> and a message. A response code other
  than the success code, a missing order and an order that is not Pending
  each give their message and leave the database alone; an exception thrown
  in the handler is caught and becomes a redirect with the encoded message of
  the exception.
\<close>

theorem confirm_payment_always_redirects:
  "(\<exists>db' url. confirm_payment db orderId code = (db', Redirect url) \<and>
      (url = cart_url @ ''?status=success&orderId='' @ orderId \<or>
       (\<exists>m. url = cart_url @ ''?status=error&message='' @ m))) \<and>
   (code \<noteq> Some ''00'' \<longrightarrow>
      confirm_payment db orderId code =
        (db, Redirect (cart_url @ ''?status=error&message=Payment%20unsuccessful''))) \<and>
   (code = Some ''00'' \<and> findById (orders db) orderId = None \<longrightarrow>
      confirm_payment db orderId code =
        (db, Redirect (cart_url @ ''?status=error&message=Order%20not%20found''))) \<and>
   (code = Some ''00'' \<and> (\<exists>order. findById (orders db) orderId = Some order \<and> status order \<noteq> Pending) \<longrightarrow>
      confirm_payment db orderId code =
        (db, Redirect (cart_url @ ''?status=error&message=Order%20already%20processed''))) \<and>
   (\<forall>db' e. confirm_payment_try db orderId code = (db', Inl e) \<longrightarrow>
      confirm_payment db orderId code =
        (db', Redirect (cart_url @ ''?status=error&message='' @ encodeURIComponent (message e))))"
proof (intro conjI)
  from confirm_payment_try_cases [of db orderId code]
  show "\<exists>db' url. confirm_payment db orderId code = (db', Redirect url) \<and>
      (url = cart_url @ ''?status=success&orderId='' @ orderId \<or>
       (\<exists>m. url = cart_url @ ''?status=error&message='' @ m))"
    by (elim disjE exE) (simp_all add: confirm_payment_def confirm_payment_catch_def)
next
  show "code \<noteq> Some ''00'' \<longrightarrow>
      confirm_payment db orderId code =
        (db, Redirect (cart_url @ ''?status=error&message=Payment%20unsuccessful''))"
    by (simp add: confirm_payment_def confirm_payment_try_def)
next
  show "code = Some ''00'' \<and> findById (orders db) orderId = None \<longrightarrow>
      confirm_payment db orderId code =
        (db, Redirect (cart_url @ ''?status=error&message=Order%20not%20found''))"
    by (simp add: confirm_payment_def confirm_payment_try_def)
next
  show "code = Some ''00'' \<and> (\<exists>order. findById (orders db) orderId = Some order \<and> status order \<noteq> Pending) \<longrightarrow>
      confirm_payment db orderId code =
        (db, Redirect (cart_url @ ''?status=error&message=Order%20already%20processed''))"
    by (auto simp: confirm_payment_def confirm_payment_try_def)
next
  show "\<forall>db' e. confirm_payment_try db orderId code = (db', Inl e) \<longrightarrow>
      confirm_payment db orderId code =
        (db', Redirect (cart_url @ ''?status=error&message='' @ encodeURIComponent (message e)))"
    by (simp add: confirm_payment_def confirm_payment_catch_def)
qed

lemma confirm_payment_try_deleted_product:
  "confirm_payment_try (shop_without_p1 Pending) ''o1'' (Some ''00'') =
     ((shop_without_p1 Pending)\<lparr>orders := [(''o1'', shop_order Paid)]\<rparr>, Inl (null_property ''_id''))"
  by (simp add: confirm_payment_try_def shop_simps populate_def reduce_item_def save_def)

theorem confirm_payment_always_redirects_witness:
  "None \<noteq> Some ''00'' \<and>
   confirm_payment (shop Pending) ''o1'' None =
     (shop Pending, Redirect (cart_url @ ''?status=error&message=Payment%20unsuccessful'')) \<and>
   findById (orders (shop Pending)) ''o7'' = None \<and>
   confirm_payment (shop Pending) ''o7'' (Some ''00'') =
     (shop Pending, Redirect (cart_url @ ''?status=error&message=Order%20not%20found'')) \<and>
   findById (orders (shop Delivered)) ''o1'' = Some (shop_order Delivered) \<and>
   status (shop_order Delivered) \<noteq> Pending \<and>
   confirm_payment (shop Delivered) ''o1'' (Some ''00'') =
     (shop Delivered, Redirect (cart_url @ ''?status=error&message=Order%20already%20processed'')) \<and>
   confirm_payment_try (shop_without_p1 Pending) ''o1'' (Some ''00'') =
     ((shop_without_p1 Pending)\<lparr>orders := [(''o1'', shop_order Paid)]\<rparr>, Inl (null_property ''_id'')) \<and>
   confirm_payment (shop_without_p1 Pending) ''o1'' (Some ''00'') =
     ((shop_without_p1 Pending)\<lparr>orders := [(''o1'', shop_order Paid)]\<rparr>,
      Redirect (cart_url @ ''?status=error&message=Cannot%20read%20properties%20of%20null%20(reading%20''
                  @ [CHR 0x27] @ ''_id'' @ [CHR 0x27] @ '')''))"
proof -
  have h1: "None \<noteq> Some ''00''" by simp
  have h2: "findById (orders (shop Pending)) ''o7'' = None"
    by (simp add: shop_simps)
  have h3: "findById (orders (shop Delivered)) ''o1'' = Some (shop_order Delivered)"
    by (simp add: shop_simps)
  have h4: "status (shop_order Delivered) \<noteq> Pending"
    by (simp add: shop_simps)
  note h5 = confirm_payment_try_deleted_product
  from confirm_payment_always_redirects [of "shop Pending" "''o1''" None] h1
  have r1: "confirm_payment (shop Pending) ''o1'' None =
     (shop Pending, Redirect (cart_url @ ''?status=error&message=Payment%20unsuccessful''))"
    by blast
  from confirm_payment_always_redirects [of "shop Pending" "''o7''" "Some ''00''"] h2
  have r2: "confirm_payment (shop Pending) ''o7'' (Some ''00'') =
     (shop Pending, Redirect (cart_url @ ''?status=error&message=Order%20not%20found''))"
    by blast
  from confirm_payment_always_redirects [of "shop Delivered" "''o1''" "Some ''00''"] h3 h4
  have r3: "confirm_payment (shop Delivered) ''o1'' (Some ''00'') =
     (shop Delivered, Redirect (cart_url @ ''?status=error&message=Order%20already%20processed''))"
    by blast
  from confirm_payment_always_redirects [of "shop_without_p1 Pending" "''o1''" "Some ''00''"] h5
  have "confirm_payment (shop_without_p1 Pending) ''o1'' (Some ''00'') =
     ((shop_without_p1 Pending)\<lparr>orders := [(''o1'', shop_order Paid)]\<rparr>,
      Redirect (cart_url @ ''?status=error&message='' @ encodeURIComponent (message (null_property ''_id''))))"
    by blast
  then have r4: "confirm_payment (shop_without_p1 Pending) ''o1'' (Some ''00'') =
     ((shop_without_p1 Pending)\<lparr>orders := [(''o1'', shop_order Paid)]\<rparr>,
      Redirect (cart_url @ ''?status=error&message=Cannot%20read%20properties%20of%20null%20(reading%20''
                  @ [CHR 0x27] @ ''_id'' @ [CHR 0x27] @ '')''))"
    by (simp add: encode_null_id)
  from h1 h2 h3 h4 h5 r1 r2 r3 r4 show ?thesis by blast
qed

section \<open>The order of the writes of confirm-payment\<close>

lemma reduce_progress_length: "length (reduce_progress its ps) \<le> length its"
  by (induction its arbitrary: ps) (auto split: sum.split)

lemma reduce_progress_nth:
  "k < length (reduce_progress its ps) \<Longrightarrow>
     reduce_progress its ps ! k = fst (reduce_quantities (take (Suc k) its) ps)"
proof (induction its arbitrary: ps k)
  case Nil
  then show ?case by simp
next
  case (Cons item its)
  then show ?case
    by (cases "reduce_item item ps"; cases k) auto
qed

lemma reduce_progress_last:
  "last (ps # reduce_progress its ps) = fst (reduce_quantities its ps)"
proof (induction its arbitrary: ps)
  case Nil
  show ?case by simp
next
  case (Cons item its)
  show ?case
  proof (cases "reduce_item item ps")
    case (Inl e)
    then show ?thesis by simp
  next
    case (Inr ps')
    with Cons [of ps'] show ?thesis by simp
  qed
qed

lemma confirm_payment_pending_state:
  assumes "findById (orders db) orderId = Some order" and "status order = Pending"
  shows "fst (confirm_payment db orderId (Some ''00'')) =
           db\<lparr>orders := save orderId (order\<lparr>status := Paid\<rparr>) (orders db),
              products := fst (reduce_quantities (populate (products db) (items order)) (products db))\<rparr>"
  by (simp add: confirm_payment_pending [OF assms] split: prod.split option.split)

lemma confirm_payment_progress_pending:
  assumes "findById (orders db) orderId = Some order" and "status order = Pending"
  shows "confirm_payment_progress db orderId (Some ''00'') =
           db\<lparr>orders := save orderId (order\<lparr>status := Paid\<rparr>) (orders db)\<rparr> #
           map (\<lambda>ps. db\<lparr>orders := save orderId (order\<lparr>status := Paid\<rparr>) (orders db), products := ps\<rparr>)
             (reduce_progress (populate (products db) (items order)) (products db))"
  using assms by (simp add: confirm_payment_progress_def Let_def)

text \<open>
  Claim C7. On a Pending order with the success code, the first state the
  handler writes is the database with the order Paid and every stock as it
  was; each later state keeps the order Paid and has the stock loop applied to
  one more line item; the last state is the one the handler ends in. So a
  handler that stops after the first write, or after the write of any line
  item but the last, leaves a Paid order with none or only the first few of
  its line items' stock lowered.
\<close>

theorem confirm_payment_status_before_stock:
  assumes found: "findById (orders db) orderId = Some order" and pend: "status order = Pending"
  shows "confirm_payment_progress db orderId (Some ''00'') \<noteq> [] \<and>
         hd (confirm_payment_progress db orderId (Some ''00'')) =
           db\<lparr>orders := save orderId (order\<lparr>status := Paid\<rparr>) (orders db)\<rparr> \<and>
         last (confirm_payment_progress db orderId (Some ''00'')) =
           fst (confirm_payment db orderId (Some ''00'')) \<and>
         length (confirm_payment_progress db orderId (Some ''00'')) \<le> Suc (length (items order)) \<and>
         (\<forall>k < length (confirm_payment_progress db orderId (Some ''00'')).
            confirm_payment_progress db orderId (Some ''00'') ! k =
              db\<lparr>orders := save orderId (order\<lparr>status := Paid\<rparr>) (orders db),
                 products := fst (reduce_quantities (take k (populate (products db) (items order)))
                                    (products db))\<rparr> \<and>
            findById (orders (confirm_payment_progress db orderId (Some ''00'') ! k)) orderId =
              Some (order\<lparr>status := Paid\<rparr>))"
proof -
  let ?db1 = "db\<lparr>orders := save orderId (order\<lparr>status := Paid\<rparr>) (orders db)\<rparr>"
  let ?pitems = "populate (products db) (items order)"
  let ?steps = "reduce_progress ?pitems (products db)"
  let ?f = "\<lambda>ps. db\<lparr>orders := save orderId (order\<lparr>status := Paid\<rparr>) (orders db), products := ps\<rparr>"
  note tr = confirm_payment_progress_pending [OF found pend]
  have "last (?db1 # map ?f ?steps) = ?f (fst (reduce_quantities ?pitems (products db)))"
  proof (cases "?steps = []")
    case True
    with reduce_progress_last [of "products db" ?pitems] show ?thesis by simp
  next
    case False
    with reduce_progress_last [of "products db" ?pitems] show ?thesis
      by (simp add: last_map)
  qed
  then have l: "last (confirm_payment_progress db orderId (Some ''00'')) =
      fst (confirm_payment db orderId (Some ''00''))"
    by (simp add: tr confirm_payment_pending_state [OF found pend])
  have len: "length (confirm_payment_progress db orderId (Some ''00'')) \<le> Suc (length (items order))"
    using reduce_progress_length [of ?pitems "products db"] by (simp add: tr populate_def)
  have n: "(?db1 # map ?f ?steps) ! k = ?f (fst (reduce_quantities (take k ?pitems) (products db)))"
    if "k < length (?db1 # map ?f ?steps)" for k
  proof (cases k)
    case 0
    then show ?thesis by simp
  next
    case (Suc j)
    with that have "j < length ?steps" by simp
    with Suc show ?thesis by (simp add: reduce_progress_nth)
  qed
  have nth: "confirm_payment_progress db orderId (Some ''00'') ! k =
          ?f (fst (reduce_quantities (take k ?pitems) (products db))) \<and>
        findById (orders (confirm_payment_progress db orderId (Some ''00'') ! k)) orderId =
          Some (order\<lparr>status := Paid\<rparr>)"
    if "k < length (confirm_payment_progress db orderId (Some ''00''))" for k
    using n [of k] that by (simp add: tr findById_save)
  have ne: "confirm_payment_progress db orderId (Some ''00'') \<noteq> []"
    by (simp add: tr)
  have h: "hd (confirm_payment_progress db orderId (Some ''00'')) = ?db1"
    by (simp add: tr)
  from ne h l len nth show ?thesis by blast
qed

theorem confirm_payment_status_before_stock_witness:
  "findById (orders (shop Pending)) ''o1'' = Some (shop_order Pending) \<and>
   status (shop_order Pending) = Pending \<and>
   1 < length (confirm_payment_progress (shop Pending) ''o1'' (Some ''00'')) \<and>
   hd (confirm_payment_progress (shop Pending) ''o1'' (Some ''00'')) = shop Paid \<and>
   findById (orders (confirm_payment_progress (shop Pending) ''o1'' (Some ''00'') ! 1)) ''o1'' =
     Some (shop_order Paid) \<and>
   products (confirm_payment_progress (shop Pending) ''o1'' (Some ''00'') ! 1) =
     [(''p1'', \<lparr>name = ''Soap'', price = 10, quantity = 3\<rparr>),
      (''p2'', \<lparr>name = ''Balm'', price = 4, quantity = 1\<rparr>)]"
proof -
  have h1: "findById (orders (shop Pending)) ''o1'' = Some (shop_order Pending)"
    by (simp add: shop_simps)
  have h2: "status (shop_order Pending) = Pending"
    by (simp add: shop_simps)
  have h3: "1 < length (confirm_payment_progress (shop Pending) ''o1'' (Some ''00''))"
    by (simp add: confirm_payment_progress_def shop_simps populate_def reduce_item_def save_def)
  have p: "(shop_order Pending)\<lparr>status := Paid\<rparr> = shop_order Paid"
    by (simp add: shop_simps)
  have s: "(shop Pending)\<lparr>orders := save ''o1'' (shop_order Paid) (orders (shop Pending))\<rparr> = shop Paid"
    by (simp add: shop_simps save_def)
  have r: "fst (reduce_quantities (take (Suc 0) (populate (products (shop Pending)) (items (shop_order Pending))))
             (products (shop Pending))) =
           [(''p1'', \<lparr>name = ''Soap'', price = 10, quantity = 3\<rparr>),
            (''p2'', \<lparr>name = ''Balm'', price = 4, quantity = 1\<rparr>)]"
    by (simp add: shop_simps populate_def reduce_item_def save_def)
  note t = confirm_payment_status_before_stock [OF h1 h2]
  from t have a: "hd (confirm_payment_progress (shop Pending) ''o1'' (Some ''00'')) = shop Paid"
    by (simp add: p s)
  from t h3 have
    "confirm_payment_progress (shop Pending) ''o1'' (Some ''00'') ! 1 =
       (shop Pending)\<lparr>orders := save ''o1'' ((shop_order Pending)\<lparr>status := Paid\<rparr>) (orders (shop Pending)),
          products := fst (reduce_quantities
            (take 1 (populate (products (shop Pending)) (items (shop_order Pending))))
            (products (shop Pending)))\<rparr> \<and>
     findById (orders (confirm_payment_progress (shop Pending) ''o1'' (Some ''00'') ! 1)) ''o1'' =
       Some ((shop_order Pending)\<lparr>status := Paid\<rparr>)"
    by blast
  then have b: "findById (orders (confirm_payment_progress (shop Pending) ''o1'' (Some ''00'') ! 1)) ''o1'' =
       Some (shop_order Paid) \<and>
     products (confirm_payment_progress (shop Pending) ''o1'' (Some ''00'') ! 1) =
       [(''p1'', \<lparr>name = ''Soap'', price = 10, quantity = 3\<rparr>),
        (''p2'', \<lparr>name = ''Balm'', price = 4, quantity = 1\<rparr>)]"
    by (simp add: p r findById_save)
  from h1 h2 h3 a b show ?thesis by blast
qed

section \<open>The total of a new order\<close>

lemma round_half_even_of_int: "round_half_even (of_int k) = k"
  by (simp add: round_half_even_def)

lemma float_exp_of_int:
  assumes "n \<noteq> 0"
  shows "float_exp (of_int n) = bitlen \<bar>n\<bar> - 1"
proof -
  have a: "\<bar>of_int n :: rat\<bar> = of_int \<bar>n\<bar>" by simp
  have b: "(1::rat) \<le> of_int \<bar>n\<bar>"
  proof -
    from assms have "1 \<le> \<bar>n\<bar>" by simp
    then have "(of_int 1 :: rat) \<le> of_int \<bar>n\<bar>" by (simp only: of_int_le_iff)
    then show ?thesis by simp
  qed
  show ?thesis unfolding float_exp_def a by (simp only: b if_True floor_of_int)
qed

lemma fl_of_int:
  assumes small: "\<bar>n\<bar> \<le> 2 ^ 53"
  shows "fl (of_int n) = of_int n"
proof (cases "n = 0")
  case True
  then show ?thesis by (simp add: fl_def)
next
  case False
  define e where "e = bitlen \<bar>n\<bar> - 1"
  from False have pos: "0 < \<bar>n\<bar>" by simp
  from bitlen_bounds [OF pos] have lo: "2 ^ nat e \<le> \<bar>n\<bar>" and hi: "\<bar>n\<bar> < 2 ^ nat (e + 1)"
    by (simp_all add: e_def)
  have e0: "0 \<le> e"
    using pos bitlen_eq_zero_iff [of "\<bar>n\<bar>"] bitlen_nonneg [of "\<bar>n\<bar>"] by (simp add: e_def)
  have le: "(2::int) ^ nat e \<le> 2 ^ 53" using lo small by linarith
  have "nat e \<le> 53"
  proof (rule power_le_imp_le_exp)
    show "(1::int) < 2" by simp
    show "(2::int) ^ nat e \<le> 2 ^ 53" by (fact le)
  qed
  with e0 have e53: "e \<le> 53" by simp
  have fe: "float_exp (of_int n) = e"
    using float_exp_of_int [OF False] by (simp add: e_def)
  have m: "max e (- 1022) = e" using e0 by simp
  have "\<exists>k. (of_int n :: rat) / pow2 (e - 52) = of_int k"
  proof (cases "e \<le> 52")
    case True
    then have "pow2 (e - 52) = 1 / 2 ^ nat (52 - e)"
      by (cases "e = 52") (simp_all add: pow2_def)
    then have "(of_int n :: rat) / pow2 (e - 52) = of_int (n * 2 ^ nat (52 - e))"
      by simp
    then show ?thesis ..
  next
    case False
    with e53 have e: "e = 53" by simp
    with lo small have "\<bar>n\<bar> = 2 ^ 53" by simp
    then have "n = 2 ^ 53 \<or> n = - (2 ^ 53)" by linarith
    then have "(of_int n :: rat) / pow2 (e - 52) = of_int (n div 2)"
      using e by (auto simp: pow2_def)
    then show ?thesis ..
  qed
  then obtain k where k: "(of_int n :: rat) / pow2 (e - 52) = of_int k" ..
  have u: "pow2 (e - 52) \<noteq> 0" by (simp add: pow2_def)
  from k u have "(of_int k :: rat) * pow2 (e - 52) = of_int n"
    by (simp add: field_simps)
  then show ?thesis
    using False by (simp add: fl_def fe m Let_def k round_half_even_of_int)
qed

lemma fl_Ints:
  assumes "x \<in> \<int>" and "\<bar>x\<bar> \<le> 2 ^ 53"
  shows "fl x = x"
proof -
  from assms(1) obtain n where x: "x = of_int n" by (rule Ints_cases)
  with assms(2) have "(of_int \<bar>n\<bar> :: rat) \<le> of_int (2 ^ 53)" by simp
  then have "\<bar>n\<bar> \<le> 2 ^ 53" by (simp only: of_int_le_iff)
  then show ?thesis unfolding x by (rule fl_of_int)
qed


lemma cart_loop_in_stock:
  assumes "\<forall>it \<in> set cart. \<exists>p. findById ps (product it) = Some p \<and> item_quantity it \<le> quantity p"
  shows "\<exists>t. cart_loop ps cart amount orderItems = Inr (t, orderItems @ cart)"
  using assms
proof (induction cart arbitrary: amount orderItems)
  case Nil
  show ?case by simp
next
  case (Cons item cart)
  from Cons.prems obtain p where p: "findById ps (product item) = Some p"
    and q: "item_quantity item \<le> quantity p" by auto
  have rest: "\<forall>it \<in> set cart. \<exists>p. findById ps (product it) = Some p \<and> item_quantity it \<le> quantity p"
    using Cons.prems by simp
  have eta: "\<lparr>product = product item, item_quantity = item_quantity item\<rparr> = item"
    by (cases item) simp
  have "cart_loop ps (item # cart) amount orderItems =
          cart_loop ps cart (js_add amount (js_mul (item_quantity item) (price p))) (orderItems @ [item])"
    using p q by (simp add: eta)
  with Cons.IH [OF rest, of "js_add amount (js_mul (item_quantity item) (price p))" "orderItems @ [item]"]
  show ?case by simp
qed

lemma cart_loop_exact:
  assumes stock: "\<forall>it \<in> set cart. \<exists>p. findById ps (product it) = Some p \<and> item_quantity it \<le> quantity p"
      and ints: "\<forall>it \<in> set cart. item_quantity it \<in> \<int> \<and>
                   (\<forall>p. findById ps (product it) = Some p \<longrightarrow> price p \<in> \<int>)"
      and amount: "amount \<in> \<int>"
      and bound: "\<bar>amount\<bar> + sum_list (map (\<lambda>it. \<bar>line_total ps it\<bar>) cart) \<le> 2 ^ 53"
  shows "cart_loop ps cart amount orderItems = Inr (amount + cart_total ps cart, orderItems @ cart)"
  using assms
proof (induction cart arbitrary: amount orderItems)
  case Nil
  show ?case by (simp add: cart_total_def)
next
  case (Cons item cart)
  from Cons.prems(1) obtain p where p: "findById ps (product item) = Some p"
    and q: "item_quantity item \<le> quantity p" by auto
  have rest: "\<forall>it \<in> set cart. \<exists>p. findById ps (product it) = Some p \<and> item_quantity it \<le> quantity p"
    using Cons.prems(1) by simp
  have rest_ints: "\<forall>it \<in> set cart. item_quantity it \<in> \<int> \<and>
      (\<forall>p. findById ps (product it) = Some p \<longrightarrow> price p \<in> \<int>)"
    using Cons.prems(2) by simp
  let ?line = "item_quantity item * price p"
  let ?rest = "sum_list (map (\<lambda>it. \<bar>line_total ps it\<bar>) cart)"
  have lt: "line_total ps item = ?line" using p by (simp add: line_total_def)
  have rest0: "0 \<le> ?rest" by (rule sum_list_nonneg) auto
  have b: "\<bar>amount\<bar> + \<bar>?line\<bar> + ?rest \<le> 2 ^ 53"
    using Cons.prems(4) by (simp add: lt)
  have line_int: "?line \<in> \<int>" using Cons.prems(2) p by simp
  have "\<bar>?line\<bar> \<le> 2 ^ 53" using b rest0 by linarith
  with line_int have mul: "js_mul (item_quantity item) (price p) = ?line"
    by (simp add: js_mul_def fl_Ints)
  have sum_int: "amount + ?line \<in> \<int>" using Cons.prems(3) line_int by simp
  have "\<bar>amount + ?line\<bar> \<le> 2 ^ 53" using b rest0 by linarith
  with sum_int have add: "js_add amount ?line = amount + ?line"
    by (simp add: js_add_def fl_Ints)
  have b': "\<bar>amount + ?line\<bar> + ?rest \<le> 2 ^ 53" using b by linarith
  have eta: "\<lparr>product = product item, item_quantity = item_quantity item\<rparr> = item"
    by (cases item) simp
  have "cart_loop ps (item # cart) amount orderItems =
          cart_loop ps cart (amount + ?line) (orderItems @ [item])"
    using p q by (simp add: eta mul add)
  also have "\<dots> = Inr (amount + ?line + cart_total ps cart, (orderItems @ [item]) @ cart)"
    by (rule Cons.IH [OF rest rest_ints sum_int b'])
  finally show ?case by (simp add: cart_total_def lt)
qed

text \<open>
  Claim C4, as the code has it. For a cart submission with the id of an
  existing account, at least one item, and for each item an existing product
  with at least the requested quantity in stock, add-to-cart answers 201 and
  appends one order to the collection; its status is Pending and its items
  are those of the cart. The total amount of the order is the sum over the
  items of the requested quantity times the price of the product whenever
  the quantities and prices are integers and the absolute values of these
  products add up to at most \<open>2\<^sup>5\<^sup>3\<close>, so that no sum and no product is rounded.
\<close>

theorem add_to_cart_order:
  assumes acc: "a \<noteq> []" "findById (accounts db) a = Some accountDetails"
      and cart: "cart \<noteq> []"
      and stock: "\<forall>it \<in> set cart. \<exists>p. findById (products db) (product it) = Some p \<and>
                    item_quantity it \<le> quantity p"
  shows "\<exists>t. add_to_cart env db (Some a) (Some cart) =
              (db\<lparr>orders := orders db @
                     [(new_id env,
                       \<lparr>account = a, items = cart, totalAmount = t, status = Pending,
                        imageConfirmDelivered = None, createdAt = now env\<rparr>)]\<rparr>,
               Json 201 (OrderCreated (new_id env) (buildPaymentUrl env t (new_id env)))) \<and>
            ((\<forall>it \<in> set cart. item_quantity it \<in> \<int> \<and>
                 (\<forall>p. findById (products db) (product it) = Some p \<longrightarrow> price p \<in> \<int>)) \<and>
             sum_list (map (\<lambda>it. \<bar>line_total (products db) it\<bar>) cart) \<le> 2 ^ 53 \<longrightarrow>
             t = cart_total (products db) cart)"
proof -
  from cart_loop_in_stock [OF stock, of 0 "[]"] obtain t where
    t: "cart_loop (products db) cart 0 [] = Inr (t, cart)" by auto
  have exact: "t = cart_total (products db) cart"
    if "(\<forall>it \<in> set cart. item_quantity it \<in> \<int> \<and>
           (\<forall>p. findById (products db) (product it) = Some p \<longrightarrow> price p \<in> \<int>)) \<and>
        sum_list (map (\<lambda>it. \<bar>line_total (products db) it\<bar>) cart) \<le> 2 ^ 53"
  proof -
    from that have ints: "\<forall>it \<in> set cart. item_quantity it \<in> \<int> \<and>
        (\<forall>p. findById (products db) (product it) = Some p \<longrightarrow> price p \<in> \<int>)"
      and bound: "\<bar>0::rat\<bar> + sum_list (map (\<lambda>it. \<bar>line_total (products db) it\<bar>) cart) \<le> 2 ^ 53"
      by simp_all
    have "cart_loop (products db) cart 0 [] = Inr (0 + cart_total (products db) cart, [] @ cart)"
      by (rule cart_loop_exact [OF stock ints _ bound]) simp
    with t show ?thesis by simp
  qed
  have "add_to_cart env db (Some a) (Some cart) =
          (db\<lparr>orders := orders db @
                 [(new_id env,
                   \<lparr>account = a, items = cart, totalAmount = t, status = Pending,
                    imageConfirmDelivered = None, createdAt = now env\<rparr>)]\<rparr>,
           Json 201 (OrderCreated (new_id env) (buildPaymentUrl env t (new_id env))))"
    using acc cart by (simp add: add_to_cart_def t insert_doc_def)
  with exact show ?thesis by blast
qed


theorem add_to_cart_order_witness:
  "''a1'' \<noteq> [] \<and>
   findById (accounts (shop Paid)) ''a1'' = Some \<lparr>email = ''ann@shop.test'', balance = 0, role = Customer\<rparr> \<and>
   findById (products (shop Paid)) ''p1'' = Some \<lparr>name = ''Soap'', price = 10, quantity = 5\<rparr> \<and>
   findById (products (shop Paid)) ''p2'' = Some \<lparr>name = ''Balm'', price = 4, quantity = 1\<rparr> \<and>
   cart_total (products (shop Paid))
     [\<lparr>product = ''p1'', item_quantity = 2\<rparr>, \<lparr>product = ''p2'', item_quantity = 1\<rparr>] = 24 \<and>
   add_to_cart shop_env (shop Paid) (Some ''a1'')
       (Some [\<lparr>product = ''p1'', item_quantity = 2\<rparr>, \<lparr>product = ''p2'', item_quantity = 1\<rparr>]) =
     ((shop Paid)\<lparr>orders := [(''o1'', shop_order Paid),
         (''o2'', \<lparr>account = ''a1'',
                   items = [\<lparr>product = ''p1'', item_quantity = 2\<rparr>, \<lparr>product = ''p2'', item_quantity = 1\<rparr>],
                   totalAmount = 24, status = Pending, imageConfirmDelivered = None, createdAt = 7\<rparr>)]\<rparr>,
      Json 201 (OrderCreated ''o2'' ''pay/o2''))"
proof -
  let ?cart = "[\<lparr>product = ''p1'', item_quantity = 2\<rparr>, \<lparr>product = ''p2'', item_quantity = 1\<rparr>]"
  have h1: "''a1'' \<noteq> []" by simp
  have h2: "findById (accounts (shop Paid)) ''a1'' =
      Some \<lparr>email = ''ann@shop.test'', balance = 0, role = Customer\<rparr>"
    by (simp add: shop_simps)
  have h3: "?cart \<noteq> []" by simp
  have p1: "findById (products (shop Paid)) ''p1'' = Some \<lparr>name = ''Soap'', price = 10, quantity = 5\<rparr>"
    by (simp add: shop_simps)
  have p2: "findById (products (shop Paid)) ''p2'' = Some \<lparr>name = ''Balm'', price = 4, quantity = 1\<rparr>"
    by (simp add: shop_simps)
  have h4: "\<forall>it \<in> set ?cart.
      \<exists>p. findById (products (shop Paid)) (product it) = Some p \<and> item_quantity it \<le> quantity p"
    by (simp add: p1 p2)
  have h5: "\<forall>it \<in> set ?cart. item_quantity it \<in> \<int> \<and>
      (\<forall>p. findById (products (shop Paid)) (product it) = Some p \<longrightarrow> price p \<in> \<int>)"
    by (auto simp: p1 p2)
  have h6: "sum_list (map (\<lambda>it. \<bar>line_total (products (shop Paid)) it\<bar>) ?cart) \<le> 2 ^ 53"
    by (simp add: line_total_def p1 p2)
  have ct: "cart_total (products (shop Paid)) ?cart = 24"
    by (simp add: cart_total_def line_total_def p1 p2)
  have os: "orders (shop Paid) = [(''o1'', shop_order Paid)]"
    by (simp add: shop_simps)
  from add_to_cart_order [OF h1 h2 h3 h4, of shop_env] h5 h6 obtain t where
    "add_to_cart shop_env (shop Paid) (Some ''a1'') (Some ?cart) =
       ((shop Paid)\<lparr>orders := orders (shop Paid) @
              [(new_id shop_env,
                \<lparr>account = ''a1'', items = ?cart, totalAmount = t, status = Pending,
                 imageConfirmDelivered = None, createdAt = now shop_env\<rparr>)]\<rparr>,
        Json 201 (OrderCreated (new_id shop_env) (buildPaymentUrl shop_env t (new_id shop_env))))"
    and "t = cart_total (products (shop Paid)) ?cart"
    by blast
  then have "add_to_cart shop_env (shop Paid) (Some ''a1'') (Some ?cart) =
     ((shop Paid)\<lparr>orders := [(''o1'', shop_order Paid),
         (''o2'', \<lparr>account = ''a1'', items = ?cart,
                   totalAmount = 24, status = Pending, imageConfirmDelivered = None, createdAt = 7\<rparr>)]\<rparr>,
      Json 201 (OrderCreated ''o2'' ''pay/o2''))"
    by (simp add: ct os shop_env_def)
  with h1 h2 p1 p2 ct show ?thesis by blast
qed

lemma dear_total: "js_add 0 (js_mul 3 9007199254740991) = 27021597764222972"
  by code_simp

text \<open>
  Claim C4 as it is written asks for the exact sum. In the shop with the
  price \<open>2\<^sup>5\<^sup>3 - 1\<close>, a cart of three pieces is a valid submission; the order
  is created with the total 27021597764222972, the nearest double, and three
  times the price is 27021597764222973.
\<close>

theorem add_to_cart_total_counterexample:
  "''a1'' \<noteq> [] \<and>
   findById (accounts dear_shop) ''a1'' = Some \<lparr>email = ''ann@shop.test'', balance = 0, role = Customer\<rparr> \<and>
   findById (products dear_shop) ''p1'' = Some \<lparr>name = ''Gold'', price = 9007199254740991, quantity = 5\<rparr> \<and>
   (3::rat) \<le> 5 \<and>
   add_to_cart shop_env dear_shop (Some ''a1'') (Some [\<lparr>product = ''p1'', item_quantity = 3\<rparr>]) =
     (dear_shop\<lparr>orders :=
         [(''o2'', \<lparr>account = ''a1'', items = [\<lparr>product = ''p1'', item_quantity = 3\<rparr>],
                   totalAmount = 27021597764222972, status = Pending,
                   imageConfirmDelivered = None, createdAt = 7\<rparr>)]\<rparr>,
      Json 201 (OrderCreated ''o2'' ''pay/o2'')) \<and>
   cart_total (products dear_shop) [\<lparr>product = ''p1'', item_quantity = 3\<rparr>] = 27021597764222973 \<and>
   (27021597764222972::rat) \<noteq> 27021597764222973"
  by (simp add: add_to_cart_def insert_doc_def dear_shop_def shop_env_def findById_def
        dear_total cart_total_def line_total_def)

section \<open>The order workflow\<close>

lemma orders_step_status:
  assumes "orders_step a b orderId c c'" and "findById c oid = Some od"
  shows "\<exists>od'. findById c' oid = Some od' \<and> (status od' = status od \<or> status od = a \<and> status od' = b)"
  using assms by (auto simp: orders_step_def findById_save)

lemma orders_step_refl: "orders_step a b orderId c c"
  by (simp add: orders_step_def)

lemma orders_step_save:
  "findById c orderId = Some order \<Longrightarrow> status order = a \<Longrightarrow> status order' = b \<Longrightarrow>
     orders_step a b orderId c (save orderId order' c)"
  by (auto simp: orders_step_def)

lemma confirm_payment_orders:
  "orders_step Pending Paid orderId (orders db) (orders (fst (confirm_payment db orderId code)))"
  by (auto simp: confirm_payment_def confirm_payment_try_def Let_def
           intro: orders_step_refl orders_step_save split: option.split prod.split sum.split)

lemma update_shipping_orders:
  "orders_step Paid Shipping orderId (orders db) (orders (fst (update_shipping db orderId)))"
  by (auto simp: update_shipping_def intro: orders_step_refl orders_step_save split: option.split)

lemma confirm_delivery_orders:
  "orders_step Shipping Delivered orderId (orders db) (orders (fst (confirm_delivery db orderId file)))"
  by (auto simp: confirm_delivery_def Let_def intro: orders_step_refl orders_step_save
           split: option.split)

lemma cancel_order_items_orders:
  "orders (fst (cancel_order_items db orderId order acc refundAmount pitems)) = orders db \<or>
   orders (fst (cancel_order_items db orderId order acc refundAmount pitems)) =
     save orderId (order\<lparr>status := Canceled\<rparr>) (orders db)"
  by (auto simp: cancel_order_items_def Let_def split: list.split option.split)

lemma credit_refund_orders: "orders (credit_refund db owner acc refundAmount) = orders db"
  by (simp add: credit_refund_def Let_def split: option.split)

lemma cancel_order_fst: "fst (cancel_order db orderId) = fst (cancel_order_try db orderId)"
  by (simp add: cancel_order_def split: prod.split sum.split)

lemma cancel_order_orders:
  "orders_step Paid Canceled orderId (orders db) (orders (fst (cancel_order db orderId)))"
proof (cases "findById (orders db) orderId")
  case None
  then show ?thesis by (simp add: orders_step_def cancel_order_def cancel_order_try_def)
next
  case (Some order)
  show ?thesis
  proof (cases "status order = Paid")
    case False
    with Some show ?thesis by (simp add: orders_step_def cancel_order_def cancel_order_try_def)
  next
    case True
    show ?thesis
    proof (cases "findById (accounts db) (account order)")
      case None
      with Some True show ?thesis
        by (simp add: orders_step_def cancel_order_def cancel_order_try_def)
    next
      case (Some acc)
      have "cancel_order_try db orderId =
          cancel_order_items (credit_refund db (account order) acc (totalAmount order * (1 / 2)))
            orderId order acc (totalAmount order * (1 / 2)) (populate (products db) (items order))"
        using \<open>findById (orders db) orderId = Some order\<close> True Some
        by (simp add: cancel_order_try_def Let_def)
      then have c: "fst (cancel_order db orderId) =
          fst (cancel_order_items (credit_refund db (account order) acc (totalAmount order * (1 / 2)))
                 orderId order acc (totalAmount order * (1 / 2)) (populate (products db) (items order)))"
        by (simp add: cancel_order_fst)
      have sv: "orders_step Paid Canceled orderId (orders db)
          (save orderId (order\<lparr>status := Canceled\<rparr>) (orders db))"
        by (rule orders_step_save [OF \<open>findById (orders db) orderId = Some order\<close> True]) simp
      from cancel_order_items_orders
        [of "credit_refund db (account order) acc (totalAmount order * (1 / 2))" orderId order acc
          "totalAmount order * (1 / 2)" "populate (products db) (items order)"]
      show ?thesis
        unfolding c credit_refund_orders
        by (elim disjE) (simp_all add: sv orders_step_refl)
    qed
  qed
qed

lemma add_to_cart_orders:
  assumes "findById (orders db) oid = Some od"
  shows "findById (orders (fst (add_to_cart env db acc its))) oid = Some od"
  using assms
  by (auto simp: add_to_cart_def Let_def findById_insert_doc
           split: option.split sum.split prod.split)

lemma add_balance_orders: "orders (fst (add_balance db acc amount)) = orders db"
  by (auto simp: add_balance_def split: option.split)

lemma route_transition_workflow: "route_transition r a b \<Longrightarrow> workflow a b"
  by (cases r) (auto simp: workflow_def)

lemma handle_status:
  assumes found: "findById (orders db) oid = Some od"
  shows "\<exists>od'. findById (orders (fst (handle db r))) oid = Some od' \<and>
           (status od' = status od \<or> route_transition r (status od) (status od'))"
proof (cases r)
  case (AddToCart env acc its)
  with add_to_cart_orders [OF found] show ?thesis by simp
next
  case (ConfirmPayment orderId code)
  with orders_step_status [OF confirm_payment_orders found] show ?thesis by simp
next
  case (UpdateShipping orderId)
  with orders_step_status [OF update_shipping_orders found] show ?thesis by simp
next
  case (ConfirmDelivery orderId f)
  with orders_step_status [OF confirm_delivery_orders found] show ?thesis by simp
next
  case (OrdersByAccount i)
  with found show ?thesis by (simp add: orders_by_account_def)
next
  case (AddBalance acc amount)
  with found show ?thesis by (simp add: add_balance_orders)
next
  case (CancelOrder orderId)
  with orders_step_status [OF cancel_order_orders found] show ?thesis by simp
next
  case ShipperOrders
  with found show ?thesis by (simp add: shipper_orders_def)
next
  case (GetAccount i)
  with found show ?thesis by (simp add: get_account_def split: option.split)
qed

lemma run_status:
  assumes "findById (orders db) oid = Some od"
  shows "\<exists>od'. findById (orders (run db rs)) oid = Some od' \<and> workflow\<^sup>*\<^sup>* (status od) (status od')"
  using assms
proof (induction rs arbitrary: db od)
  case Nil
  then show ?case by simp
next
  case (Cons r rs)
  from handle_status [OF Cons.prems, of r] obtain od1 where
    od1: "findById (orders (fst (handle db r))) oid = Some od1" and
    st: "status od1 = status od \<or> route_transition r (status od) (status od1)"
    by blast
  from st have first: "workflow\<^sup>*\<^sup>* (status od) (status od1)"
    by (auto dest: route_transition_workflow)
  from Cons.IH [OF od1] obtain od' where
    "findById (orders (run (fst (handle db r)) rs)) oid = Some od'"
    "workflow\<^sup>*\<^sup>* (status od1) (status od')"
    by blast
  with first show ?case by auto
qed


text \<open>
  Claim C3. Whatever request is handled, an order that is in the collection
  is still there afterwards, and its status is the same or has changed along
  the transition of the route: Pending to Paid for confirm-payment, Paid to
  Shipping for update-shipping, Shipping to Delivered for confirm-delivery,
  Paid to Canceled for cancel-order, and no change for any other route. So
  after any run of requests the status of the order is reachable from its
  first status by transitions of the workflow.
\<close>

theorem order_status_workflow:
  assumes found: "findById (orders db) oid = Some od"
  shows "(\<forall>r. \<exists>od'. findById (orders (fst (handle db r))) oid = Some od' \<and>
             (status od' = status od \<or> route_transition r (status od) (status od'))) \<and>
         (\<forall>rs. \<exists>od'. findById (orders (run db rs)) oid = Some od' \<and>
             workflow\<^sup>*\<^sup>* (status od) (status od'))"
  using handle_status [OF found] run_status [OF found] by blast

theorem order_status_workflow_witness:
  "findById (orders (shop Pending)) ''o1'' = Some (shop_order Pending) \<and>
   map_option status (findById (orders (fst (handle (shop Pending) (CancelOrder ''o1'')))) ''o1'') =
     Some Pending \<and>
   map_option status (findById (orders (fst (handle (shop Pending) (ConfirmPayment ''o1'' (Some ''00''))))) ''o1'') =
     Some Paid \<and>
   route_transition (ConfirmPayment ''o1'' (Some ''00'')) Pending Paid \<and>
   map_option status (findById (orders (run (shop Pending)
       [ConfirmPayment ''o1'' (Some ''00''), UpdateShipping ''o1'', CancelOrder ''o1'',
        ConfirmDelivery ''o1'' (Some ''photo.png'')])) ''o1'') = Some Delivered \<and>
   workflow\<^sup>*\<^sup>* Pending Delivered"
proof -
  let ?rs = "[ConfirmPayment ''o1'' (Some ''00''), UpdateShipping ''o1'', CancelOrder ''o1'',
              ConfirmDelivery ''o1'' (Some ''photo.png'')]"
  have h: "findById (orders (shop Pending)) ''o1'' = Some (shop_order Pending)"
    by (simp add: shop_simps)
  have s: "status (shop_order Pending) = Pending"
    by (simp add: shop_simps)
  have e1: "map_option status (findById (orders (fst (handle (shop Pending) (CancelOrder ''o1'')))) ''o1'') =
      Some Pending"
    by (simp add: cancel_order_def cancel_order_try_def shop_simps)
  have e2: "map_option status
      (findById (orders (fst (handle (shop Pending) (ConfirmPayment ''o1'' (Some ''00''))))) ''o1'') = Some Paid"
    by (simp add: confirm_payment_def confirm_payment_try_def shop_simps populate_def
          reduce_item_def save_def)
  have e3: "map_option status (findById (orders (run (shop Pending) ?rs)) ''o1'') = Some Delivered"
    by (simp add: confirm_payment_def confirm_payment_try_def update_shipping_def
          cancel_order_def cancel_order_try_def confirm_delivery_def shop_simps populate_def
          reduce_item_def save_def Let_def)
  note t = order_status_workflow [OF h]
  from t obtain od' where
    "findById (orders (fst (handle (shop Pending) (ConfirmPayment ''o1'' (Some ''00''))))) ''o1'' = Some od'"
    "status od' = status (shop_order Pending) \<or>
     route_transition (ConfirmPayment ''o1'' (Some ''00'')) (status (shop_order Pending)) (status od')"
    by blast
  with e2 s have r1: "route_transition (ConfirmPayment ''o1'' (Some ''00'')) Pending Paid"
    by auto
  from t obtain od'' where
    "findById (orders (run (shop Pending) ?rs)) ''o1'' = Some od''"
    "workflow\<^sup>*\<^sup>* (status (shop_order Pending)) (status od'')"
    by blast
  with e3 s have r2: "workflow\<^sup>*\<^sup>* Pending Delivered"
    by auto
  from h e1 e2 e3 r1 r2 show ?thesis by blast
qed

section \<open>Cancelling a Paid order\<close>

text \<open>
  Claim C1 says that cancelling a Paid order credits half of the total amount
  to the owning account and to an admin account, restores the stock of every
  line item and sets the status to Canceled. The handler answers from inside
  the first iteration of its loop over the line items. On the Paid order of
  the small shop, with the line items (p1, 2) and (p2, 3), it credits 16 to
  both accounts, raises the stock of p1 from 5 to 7, sets the status to
  Canceled and answers 200, and the stock of p2 stays 1 where the claim asks
  for 4.
\<close>

theorem cancel_order_first_item_only:
  "findById (orders (shop Paid)) ''o1'' = Some (shop_order Paid) \<and>
   status (shop_order Paid) = Paid \<and>
   items (shop_order Paid) = [\<lparr>product = ''p1'', item_quantity = 2\<rparr>, \<lparr>product = ''p2'', item_quantity = 3\<rparr>] \<and>
   products (shop Paid) =
     [(''p1'', \<lparr>name = ''Soap'', price = 10, quantity = 5\<rparr>),
      (''p2'', \<lparr>name = ''Balm'', price = 4, quantity = 1\<rparr>)] \<and>
   snd (cancel_order (shop Paid) ''o1'') = Json 200 (Refunded cancel_message 16) \<and>
   accounts (fst (cancel_order (shop Paid) ''o1'')) =
     [(''a1'', \<lparr>email = ''ann@shop.test'', balance = 16, role = Customer\<rparr>),
      (''a2'', \<lparr>email = ''root@shop.test'', balance = 116, role = Admin\<rparr>)] \<and>
   orders (fst (cancel_order (shop Paid) ''o1'')) = [(''o1'', shop_order Canceled)] \<and>
   products (fst (cancel_order (shop Paid) ''o1'')) =
     [(''p1'', \<lparr>name = ''Soap'', price = 10, quantity = 7\<rparr>),
      (''p2'', \<lparr>name = ''Balm'', price = 4, quantity = 1\<rparr>)]"
  by (simp add: cancel_order_def cancel_order_try_def cancel_order_items_def credit_refund_def
        findOne_admin_def shop_simps populate_def save_def Let_def)

section \<open>A line item whose product has been deleted\<close>

text \<open>
  Claim C10 says that confirm-payment and cancel-order skip a line item whose
  product no longer exists and still report success. In the shop without the
  product p1 the populated product of the first line item is null, and
  reading its id throws before the guard on the product is reached:
  confirm-payment has saved the order as Paid and redirects with
  \<open>status=error\<close>, with the stock of p2 not lowered; cancel-order has credited
  both balances and answers 500, with the order still Paid.
\<close>

theorem deleted_product_not_skipped:
  "findById (products (shop_without_p1 Pending)) ''p1'' = None \<and>
   confirm_payment (shop_without_p1 Pending) ''o1'' (Some ''00'') =
     ((shop_without_p1 Pending)\<lparr>orders := [(''o1'', shop_order Paid)]\<rparr>,
      Redirect (cart_url @ ''?status=error&message=Cannot%20read%20properties%20of%20null%20(reading%20''
                  @ [CHR 0x27] @ ''_id'' @ [CHR 0x27] @ '')'')) \<and>
   cancel_order (shop_without_p1 Paid) ''o1'' =
     ((shop_without_p1 Paid)\<lparr>accounts :=
         [(''a1'', \<lparr>email = ''ann@shop.test'', balance = 16, role = Customer\<rparr>),
          (''a2'', \<lparr>email = ''root@shop.test'', balance = 116, role = Admin\<rparr>)]\<rparr>,
      Json 500 (MessageError ''Loi may chu''
        (''Cannot read properties of null (reading '' @ [CHR 0x27] @ ''_id'' @ [CHR 0x27] @ '')'')))"
proof (intro conjI)
  show "findById (products (shop_without_p1 Pending)) ''p1'' = None"
    by (simp add: shop_simps)
  show "confirm_payment (shop_without_p1 Pending) ''o1'' (Some ''00'') =
     ((shop_without_p1 Pending)\<lparr>orders := [(''o1'', shop_order Paid)]\<rparr>,
      Redirect (cart_url @ ''?status=error&message=Cannot%20read%20properties%20of%20null%20(reading%20''
                  @ [CHR 0x27] @ ''_id'' @ [CHR 0x27] @ '')''))"
    using encode_null_id
    by (simp add: confirm_payment_def confirm_payment_catch_def confirm_payment_try_deleted_product)
  show "cancel_order (shop_without_p1 Paid) ''o1'' =
     ((shop_without_p1 Paid)\<lparr>accounts :=
         [(''a1'', \<lparr>email = ''ann@shop.test'', balance = 16, role = Customer\<rparr>),
          (''a2'', \<lparr>email = ''root@shop.test'', balance = 116, role = Admin\<rparr>)]\<rparr>,
      Json 500 (MessageError ''Loi may chu''
        (''Cannot read properties of null (reading '' @ [CHR 0x27] @ ''_id'' @ [CHR 0x27] @ '')'')))"
    by (simp add: cancel_order_def cancel_order_try_def cancel_order_items_def cancel_order_catch_def
          credit_refund_def findOne_admin_def null_property_def shop_simps populate_def save_def Let_def)
qed

end
